theory Spec2Isabelle
  imports Main
begin

section \<open>The NCBI synonym scraper of gFoods (\<open>scrape_ncbi_synonyms.py\<close>)\<close>

text \<open>
  A shallow embedding of \<open>scrape_ncbi_synonyms.py\<close>.  A Python \<open>str\<close> is a \<open>string\<close>; a
  character of the model stands for a code point below 256.  A Python exception is a value
  of the type \<open>error\<close>, and a function that can raise returns \<open>error + 'a\<close>.  The \<open>print\<close>
  calls of the script (progress lines and warnings) have no effect on any value the script
  computes and are left out.
\<close>

subsection \<open>Python strings\<close>

datatype error =
    SystemExit
  | ValueError string
  | IndexError
  | AttributeError
  | ParseError

text \<open>
  A cell of a CSV row: \<open>csv.DictReader\<close> stores a \<open>str\<close> for every field of a line and
  \<open>None\<close> (its \<open>restval\<close>) for the columns a short line does not reach.
\<close>

datatype cell = PyNone | Str string

text \<open>\<open>str.isspace\<close> on the code points below 256: what \<open>str.strip()\<close> removes.\<close>

definition is_space :: "char \<Rightarrow> bool" where
  "is_space c = (c \<in> set [CHR 0x09, CHR 0x0A, CHR 0x0B, CHR 0x0C, CHR 0x0D,
                           CHR 0x1C, CHR 0x1D, CHR 0x1E, CHR 0x1F, CHR 0x20,
                           CHR 0x85, CHR 0xA0])"

definition lstrip :: "string \<Rightarrow> string" where
  "lstrip s = dropWhile is_space s"

definition rstrip :: "string \<Rightarrow> string" where
  "rstrip s = rev (dropWhile is_space (rev s))"

definition strip :: "string \<Rightarrow> string" where
  "strip s = rstrip (lstrip s)"

text \<open>\<open>s.replace(a, b)\<close> for one-character \<open>a\<close> and \<open>b\<close>.\<close>

definition replace_char :: "char \<Rightarrow> char \<Rightarrow> string \<Rightarrow> string" where
  "replace_char a b s = map (\<lambda>c. if c = a then b else c) s"

text \<open>
  \<open>str.lower\<close> on the code points below 256: the letters \<open>A\<close>-\<open>Z\<close> and the accented capitals
  \<open>0xC0\<close>-\<open>0xDE\<close> (the multiplication sign \<open>0xD7\<close> apart) move up by 32, which sets the bit
  of weight 32; every other character stays.
\<close>

definition is_upper :: "char \<Rightarrow> bool" where
  "is_upper c = (let n = (of_char c :: nat) in
     (65 \<le> n \<and> n \<le> 90) \<or> (192 \<le> n \<and> n \<le> 222 \<and> n \<noteq> 215))"

definition lower_char :: "char \<Rightarrow> char" where
  "lower_char c =
     (if is_upper c
      then (case c of Char b0 b1 b2 b3 b4 b5 b6 b7 \<Rightarrow> Char b0 b1 b2 b3 b4 True b6 b7)
      else c)"

definition lower :: "string \<Rightarrow> string" where
  "lower s = map lower_char s"

definition endswith :: "string \<Rightarrow> string \<Rightarrow> bool" where
  "endswith s suffix =
     (length suffix \<le> length s \<and> drop (length s - length suffix) s = suffix)"

text \<open>
  \<open>s.rsplit(sep, 1)[0]\<close> for a one-character separator: the part of \<open>s\<close> before the last
  separator, and the whole of \<open>s\<close> when it has none.
\<close>

definition rsplit1_first :: "char \<Rightarrow> string \<Rightarrow> string" where
  "rsplit1_first sep s =
     (if sep \<in> set s then rev (tl (dropWhile (\<lambda>c. c \<noteq> sep) (rev s))) else s)"

text \<open>\<open>sep.join(xs)\<close>.\<close>

fun join :: "string \<Rightarrow> string list \<Rightarrow> string" where
  "join sep [] = []"
| "join sep [x] = x"
| "join sep (x # y # ys) = x @ sep @ join sep (y # ys)"

text \<open>\<open>str(n)\<close> for an integer: its decimal digits, after a minus sign when negative.\<close>

definition digit_char :: "nat \<Rightarrow> char" where
  "digit_char d = ''0123456789'' ! d"

function str_nat :: "nat \<Rightarrow> string" where
  "str_nat n = (if n < 10 then [digit_char n] else str_nat (n div 10) @ [digit_char (n mod 10)])"
  by pat_completeness auto
termination
  by (relation "measure (\<lambda>n. n)") auto

declare str_nat.simps [simp del]

definition str_int :: "int \<Rightarrow> string" where
  "str_int i = (if i < 0 then CHR ''-'' # str_nat (nat (- i)) else str_nat (nat i))"

text \<open>
  \<open>list(OrderedDict.fromkeys(xs))\<close>: the keys of the dictionary in the order of their first
  insertion; inserting a key that is already there leaves its place as it is.
\<close>

definition fromkeys :: "'a list \<Rightarrow> 'a list" where
  "fromkeys xs = foldl (\<lambda>keys x. if x \<in> set keys then keys else keys @ [x]) [] xs"

subsection \<open>Name normalisation and identity keys\<close>

text \<open>
  Both functions call \<open>name.replace\<close>, which raises \<open>AttributeError\<close> when \<open>name\<close> is \<open>None\<close>.
\<close>

definition format_scientific_name :: "cell \<Rightarrow> error + string" where
  "format_scientific_name name =
     (case name of PyNone \<Rightarrow> Inl AttributeError
      | Str n \<Rightarrow> Inr (strip (replace_char (CHR ''_'') (CHR '' '') n)))"

definition format_common_name :: "cell \<Rightarrow> error + string" where
  "format_common_name name =
     (case name of PyNone \<Rightarrow> Inl AttributeError
      | Str n \<Rightarrow> Inr (strip (replace_char (CHR ''_'') (CHR '' '') n)))"

type_synonym key = "string \<times> string"

definition build_key :: "cell \<Rightarrow> cell \<Rightarrow> int \<Rightarrow> error + key" where
  "build_key scientific common fallback_index =
     (case format_scientific_name scientific of
        Inl e \<Rightarrow> Inl e
      | Inr sci \<Rightarrow>
          if sci \<noteq> [] then Inr (''sci'', sci)
          else (case format_common_name common of
                  Inl e \<Rightarrow> Inl e
                | Inr com \<Rightarrow>
                    if com \<noteq> [] then Inr (''com'', com)
                    else Inr (''row'', str_int fallback_index)))"

subsection \<open>Candidate queries\<close>

text \<open>
  The list \<open>candidates\<close> of \<open>candidate_queries\<close> as it stands when the \<open>return\<close> is reached,
  from the two cleaned names.  The list grows by \<open>append\<close>; each \<open>let\<close> below is one such
  statement.  \<open>sci[:-1]\<close> is \<open>butlast sci\<close>.
\<close>

definition candidates :: "string \<Rightarrow> string \<Rightarrow> string list" where
  "candidates sci com =
     (let candidates = [];
          candidates =
            (if sci \<noteq> [] then
               let candidates = candidates @ [sci];
                   candidates =
                     (if endswith sci ''.'' then candidates @ [butlast sci] else candidates);
                   lower = lower sci
               in if endswith lower '' sp.'' \<or> endswith lower '' sp''
                     \<or> endswith lower '' spp.'' \<or> endswith lower '' spp''
                  then candidates @ [rsplit1_first (CHR '' '') sci]
                  else candidates
             else candidates)
      in if com \<noteq> [] then candidates @ [com] else candidates)"

definition candidate_queries :: "cell \<Rightarrow> cell \<Rightarrow> error + string list" where
  "candidate_queries scientific common =
     (case format_scientific_name scientific of
        Inl e \<Rightarrow> Inl e
      | Inr sci \<Rightarrow>
          (case format_common_name common of
             Inl e \<Rightarrow> Inl e
           | Inr com \<Rightarrow> Inr (fromkeys (filter (\<lambda>c. c \<noteq> []) (candidates sci com)))))"

text \<open>The order of first occurrence, written with the library's \<open>remdups\<close>.\<close>

definition first_seen :: "'a list \<Rightarrow> 'a list" where
  "first_seen xs = rev (remdups (rev xs))"

subsection \<open>XML documents\<close>

text \<open>
  An element as \<open>xml.etree.ElementTree\<close> holds it, with the parts the script reads: the tag,
  the text before the first child (\<open>None\<close> when there is none) and the children in document
  order.  The text of an HTTP response is represented by what \<open>ElementTree.fromstring\<close>
  makes of it: \<open>Some root\<close>, or \<open>None\<close> when the text is not well-formed XML and
  \<open>fromstring\<close> raises \<open>ParseError\<close>.
\<close>

datatype element = Element (tag: string) (text_of: "string option") (children: "element list")

type_synonym xml_text = "element option"

definition find_child :: "element \<Rightarrow> string \<Rightarrow> element option" where
  "find_child e t = List.find (\<lambda>c. tag c = t) (children e)"

definition findall :: "element \<Rightarrow> string \<Rightarrow> element list" where
  "findall e t = filter (\<lambda>c. tag c = t) (children e)"

definition findtext :: "element \<Rightarrow> string \<Rightarrow> string option" where
  "findtext e t =
     (case find_child e t of
        None \<Rightarrow> None
      | Some c \<Rightarrow> (case text_of c of None \<Rightarrow> Some [] | Some s \<Rightarrow> Some s))"

subsection \<open>The network\<close>

text \<open>
  The two requests of the script, with the one parameter that varies: the query of an
  \<open>esearch\<close> call and the identifier of an \<open>efetch\<close> call.  The trace records every request
  and every \<open>time.sleep\<close> in the order they happen.  \<open>Resolve key\<close> is bookkeeping of the
  model: it marks that the main pass starts the loop over the candidate queries of \<open>key\<close>
  (the \<open>else\<close> branch of \<open>if key in taxid_cache\<close>).

  The remote service is a parameter: it answers a request, given the trace so far, either
  with a failure (\<open>SESSION.get\<close> or \<open>raise_for_status\<close> raises a \<open>RequestException\<close>) or with
  the text of a response.
\<close>

datatype request = ESearch string | EFetch string

datatype event = Request request | Sleep | Resolve key

datatype http_result = RequestException | Response xml_text

type_synonym network = "event list \<Rightarrow> request \<Rightarrow> http_result"

text \<open>The loop of \<open>search_taxid\<close> over \<open>id_list.findall("Id")\<close>.\<close>

fun first_id :: "element list \<Rightarrow> string option" where
  "first_id [] = None"
| "first_id (id_elem # rest) =
     (case text_of id_elem of
        None \<Rightarrow> first_id rest
      | Some t \<Rightarrow> if t \<noteq> [] then Some (strip t) else first_id rest)"

definition search_taxid ::
  "network \<Rightarrow> string \<Rightarrow> event list \<Rightarrow> (error + string option) \<times> event list" where
  "search_taxid net query tr =
     (let tr' = tr @ [Request (ESearch query)] in
      case net tr (ESearch query) of
        RequestException \<Rightarrow> (Inr None, tr')
      | Response body \<Rightarrow>
          (case body of
             None \<Rightarrow> (Inl ParseError, tr')
           | Some root \<Rightarrow>
               (case find_child root ''IdList'' of
                  None \<Rightarrow> (Inr None, tr')
                | Some id_list \<Rightarrow> (Inr (first_id (findall id_list ''Id'')), tr'))))"

definition synonym_tags :: "string list" where
  "synonym_tags =
     [''Synonym'', ''EquivalentName'', ''GenbankSynonym'', ''GenbankCommonName'',
      ''CommonName'']"

text \<open>
  The three loops of \<open>extract_synonyms\<close>: over the elements of one tag, over the \<open>Name\<close>
  elements, and over the collected values into the ordered dictionary (held as the list of
  its keys).
\<close>

definition append_texts :: "string list \<Rightarrow> element list \<Rightarrow> string list" where
  "append_texts values elems =
     foldl (\<lambda>values elem.
              let txt = (case text_of elem of
                           None \<Rightarrow> []
                         | Some t \<Rightarrow> if t \<noteq> [] then strip t else [])
              in if txt \<noteq> [] then values @ [txt] else values)
           values elems"

definition append_disp_names :: "string list \<Rightarrow> element list \<Rightarrow> string list" where
  "append_disp_names values name_elems =
     foldl (\<lambda>values name_elem.
              case findtext name_elem ''DispName'' of
                None \<Rightarrow> values
              | Some disp \<Rightarrow> if disp \<noteq> [] then values @ [strip disp] else values)
           values name_elems"

definition ordered_keys :: "string list \<Rightarrow> string list" where
  "ordered_keys values =
     foldl (\<lambda>ordered value.
              let cleaned = strip value
              in if cleaned \<noteq> [] \<and> cleaned \<notin> set ordered then ordered @ [cleaned]
                 else ordered)
           [] values"

definition extract_synonyms :: "xml_text \<Rightarrow> error + string list" where
  "extract_synonyms xml_text =
     (case xml_text of
        None \<Rightarrow> Inl ParseError
      | Some root \<Rightarrow>
          (case find_child root ''Taxon'' of
             None \<Rightarrow> Inr []
           | Some taxon \<Rightarrow>
               (case find_child taxon ''OtherNames'' of
                  None \<Rightarrow> Inr []
                | Some other_names \<Rightarrow>
                    let values = [];
                        values = foldl (\<lambda>values tag. append_texts values (findall other_names tag))
                                       values synonym_tags;
                        values = append_disp_names values (findall other_names ''Name'')
                    in Inr (ordered_keys values))))"

definition fetch_synonyms_for_taxid ::
  "network \<Rightarrow> string \<Rightarrow> event list \<Rightarrow> (error + string list) \<times> event list" where
  "fetch_synonyms_for_taxid net taxid tr =
     (let tr' = tr @ [Request (EFetch taxid)] in
      case net tr (EFetch taxid) of
        RequestException \<Rightarrow> (Inr [], tr')
      | Response body \<Rightarrow> (extract_synonyms body, tr'))"

subsection \<open>The row pipeline\<close>

text \<open>
  A row as \<open>csv.DictReader\<close> yields it: a dictionary from column names to cells.  (The list
  that \<open>DictReader\<close> files under the key \<open>None\<close> for a line longer than the header is never
  read by the script and is left out.)  The input file is \<open>None\<close> when the path does not
  exist; otherwise it has the \<open>fieldnames\<close> of the reader, \<open>None\<close> when the file has no line
  at all, and the rows.
\<close>

type_synonym row = "string \<rightharpoonup> cell"

record csv_file =
  fieldnames :: "string list option"
  records :: "row list"

text \<open>\<open>row.get(name, "")\<close>.\<close>

definition row_get :: "row \<Rightarrow> string \<Rightarrow> cell" where
  "row_get row name = (case row name of None \<Rightarrow> Str [] | Some v \<Rightarrow> v)"

text \<open>\<open>enumerate(xs, start)\<close>.\<close>

fun enumerate_from :: "int \<Rightarrow> 'a list \<Rightarrow> (int \<times> 'a) list" where
  "enumerate_from start [] = []"
| "enumerate_from start (x # xs) = (start, x) # enumerate_from (start + 1) xs"

text \<open>\<open>xs[:n]\<close>: a negative \<open>n\<close> counts from the end.\<close>

definition slice_to :: "int \<Rightarrow> 'a list \<Rightarrow> 'a list" where
  "slice_to n xs = (if 0 \<le> n then take (nat n) xs else take (length xs - nat (- n)) xs)"

definition OPEN_TREE_FIELD :: string where
  "OPEN_TREE_FIELD = ''synonyms_open_tree_of_life''"

definition WIKI_FIELD :: string where
  "WIKI_FIELD = ''synonyms_wiki_search''"

definition NCBI_FIELD :: string where
  "NCBI_FIELD = ''synonyms_ncbi''"

text \<open>The key that the pre-scan computes for an enumerated row, and its body.\<close>

definition prescan_key :: "int \<times> row \<Rightarrow> error + key" where
  "prescan_key ir =
     (case ir of (idx, row) \<Rightarrow>
        build_key (row_get row ''food_sci'') (row_get row ''food_com'') idx)"

fun prescan ::
  "(key \<rightharpoonup> string list) \<Rightarrow> (int \<times> row) list \<Rightarrow> error + (key \<rightharpoonup> string list)" where
  "prescan name_candidates [] = Inr name_candidates"
| "prescan name_candidates ((idx, row) # rest) =
     (case prescan_key (idx, row) of
        Inl e \<Rightarrow> Inl e
      | Inr key \<Rightarrow>
          (case candidate_queries (row_get row ''food_sci'') (row_get row ''food_com'') of
             Inl e \<Rightarrow> Inl e
           | Inr queries \<Rightarrow>
               if queries \<noteq> [] then
                 (case name_candidates key of
                    None \<Rightarrow> prescan (name_candidates(key \<mapsto> queries)) rest
                  | Some _ \<Rightarrow> prescan name_candidates rest)
               else prescan name_candidates rest))"

text \<open>The three caches of \<open>main\<close> and the trace of what the run did.\<close>

record state =
  query_cache :: "string \<rightharpoonup> string option"
  taxid_cache :: "key \<rightharpoonup> string option"
  synonym_cache :: "string \<rightharpoonup> string"
  trace :: "event list"

definition init_state :: state where
  "init_state =
     \<lparr>query_cache = Map.empty, taxid_cache = Map.empty, synonym_cache = Map.empty, trace = []\<rparr>"

text \<open>The truth value of an \<open>Optional[str]\<close>: \<open>None\<close> and the empty string are false.\<close>

definition truthy :: "string option \<Rightarrow> bool" where
  "truthy t = (case t of None \<Rightarrow> False | Some s \<Rightarrow> s \<noteq> [])"

text \<open>
  The loop \<open>for query in queries\<close>, from the current value of \<open>taxid\<close>.  The cache is read
  once: a query that is in it gives its entry, a query that is not gives the result of the
  search, which is stored.
\<close>

fun resolve ::
  "network \<Rightarrow> string list \<Rightarrow> string option \<Rightarrow> state \<Rightarrow> (error + string option) \<times> state" where
  "resolve net [] taxid s = (Inr taxid, s)"
| "resolve net (query # rest) taxid s =
     (case query_cache s query of
        Some cached \<Rightarrow> if truthy cached then (Inr cached, s) else resolve net rest cached s
      | None \<Rightarrow>
          (case search_taxid net query (trace s) of
             (Inl e, tr) \<Rightarrow> (Inl e, s\<lparr>trace := tr\<rparr>)
           | (Inr found, tr) \<Rightarrow>
               let s' = s\<lparr>query_cache := (query_cache s)(query \<mapsto> found),
                          trace := tr @ [Sleep]\<rparr>
               in if truthy found then (Inr found, s') else resolve net rest found s'))"

text \<open>Lines 217-227: the identifier of a key, from the key-level cache or by resolution.\<close>

definition taxid_for_key ::
  "network \<Rightarrow> key \<Rightarrow> string list \<Rightarrow> state \<Rightarrow> (error + string option) \<times> state" where
  "taxid_for_key net key queries s =
     (case taxid_cache s key of
        Some cached \<Rightarrow> (Inr cached, s)
      | None \<Rightarrow>
          (case resolve net queries None (s\<lparr>trace := trace s @ [Resolve key]\<rparr>) of
             (Inl e, s') \<Rightarrow> (Inl e, s')
           | (Inr taxid, s') \<Rightarrow>
               (Inr taxid, s'\<lparr>taxid_cache := (taxid_cache s')(key \<mapsto> taxid)\<rparr>)))"

text \<open>Lines 229-234: the synonym field of an identifier, through the identifier-level cache.\<close>

definition synonyms_for_taxid ::
  "network \<Rightarrow> string option \<Rightarrow> state \<Rightarrow> (error + string) \<times> state" where
  "synonyms_for_taxid net taxid s =
     (case taxid of
        None \<Rightarrow> (Inr [], s)
      | Some t \<Rightarrow>
          if t = [] then (Inr [], s)
          else (case synonym_cache s t of
                  Some joined \<Rightarrow> (Inr joined, s)
                | None \<Rightarrow>
                    (case fetch_synonyms_for_taxid net t (trace s) of
                       (Inl e, tr) \<Rightarrow> (Inl e, s\<lparr>trace := tr\<rparr>)
                     | (Inr synonyms, tr) \<Rightarrow>
                         (Inr (join ''; '' synonyms),
                          s\<lparr>synonym_cache := (synonym_cache s)(t \<mapsto> join ''; '' synonyms),
                            trace := tr @ [Sleep]\<rparr>))))"

text \<open>The key that the main pass computes for a row enumerated from 1.\<close>

definition main_key :: "int \<times> row \<Rightarrow> error + key" where
  "main_key ir =
     (case ir of (idx, row) \<Rightarrow>
        build_key (row_get row ''food_sci'') (row_get row ''food_com'') (idx - 1))"

text \<open>
  The dictionary appended to \<open>updated_rows\<close>: the entries of the literal in their order, a
  later entry replacing an earlier one under the same key.
\<close>

definition updated_row :: "string \<Rightarrow> row \<Rightarrow> string \<Rightarrow> row" where
  "updated_row index_field row synonyms_ncbi =
     Map.empty(index_field \<mapsto> row_get row index_field,
               ''food_com'' \<mapsto> row_get row ''food_com'',
               ''food_sci'' \<mapsto> row_get row ''food_sci'',
               OPEN_TREE_FIELD \<mapsto> row_get row OPEN_TREE_FIELD,
               WIKI_FIELD \<mapsto> row_get row WIKI_FIELD,
               NCBI_FIELD \<mapsto> Str synonyms_ncbi)"

definition process_row ::
  "network \<Rightarrow> string \<Rightarrow> (key \<rightharpoonup> string list) \<Rightarrow> int \<times> row \<Rightarrow> state
     \<Rightarrow> (error + row) \<times> state" where
  "process_row net index_field name_candidates ir s =
     (case main_key ir of
        Inl e \<Rightarrow> (Inl e, s)
      | Inr key \<Rightarrow>
          let queries = (case name_candidates key of None \<Rightarrow> [] | Some qs \<Rightarrow> qs) in
          (case taxid_for_key net key queries s of
             (Inl e, s1) \<Rightarrow> (Inl e, s1)
           | (Inr taxid, s1) \<Rightarrow>
               (case synonyms_for_taxid net taxid s1 of
                  (Inl e, s2) \<Rightarrow> (Inl e, s2)
                | (Inr synonyms_ncbi, s2) \<Rightarrow>
                    (Inr (updated_row index_field (snd ir) synonyms_ncbi), s2))))"

fun main_loop ::
  "network \<Rightarrow> string \<Rightarrow> (key \<rightharpoonup> string list) \<Rightarrow> (int \<times> row) list \<Rightarrow> row list \<Rightarrow> state
     \<Rightarrow> (error + row list) \<times> state" where
  "main_loop net index_field name_candidates [] updated_rows s = (Inr updated_rows, s)"
| "main_loop net index_field name_candidates (ir # rest) updated_rows s =
     (case process_row net index_field name_candidates ir s of
        (Inl e, s') \<Rightarrow> (Inl e, s')
      | (Inr r, s') \<Rightarrow>
          main_loop net index_field name_candidates rest (updated_rows @ [r]) s')"

text \<open>
  The output file as \<open>csv.DictWriter\<close> writes it: the header, and for every dictionary the
  fields \<open>rowdict.get(name, "")\<close> in the order of \<open>fieldnames\<close>, a \<open>None\<close> written as the
  empty field.  (Every key of an updated row is one of the \<open>fieldnames\<close>, so the writer's
  check for extra keys never fails.)
\<close>

record csv_output =
  header :: "string list"
  body :: "string list list"

definition field_text :: "cell option \<Rightarrow> string" where
  "field_text c = (case c of None \<Rightarrow> [] | Some PyNone \<Rightarrow> [] | Some (Str v) \<Rightarrow> v)"

definition dict_to_list :: "string list \<Rightarrow> row \<Rightarrow> string list" where
  "dict_to_list names rowdict = map (\<lambda>name. field_text (rowdict name)) names"

definition output_fieldnames :: "string \<Rightarrow> string list" where
  "output_fieldnames index_field =
     [index_field, ''food_com'', ''food_sci'', OPEN_TREE_FIELD, WIKI_FIELD, NCBI_FIELD]"

definition main ::
  "network \<Rightarrow> csv_file option \<Rightarrow> int option \<Rightarrow> (error + csv_output) \<times> state" where
  "main net input limit =
     (case input of
        None \<Rightarrow> (Inl SystemExit, init_state)
      | Some file \<Rightarrow>
          (case fieldnames file of
             None \<Rightarrow> (Inl (ValueError ''CSV missing headers''), init_state)
           | Some names \<Rightarrow>
               (case names of
                  [] \<Rightarrow> (Inl IndexError, init_state)
                | index_field # _ \<Rightarrow>
                    let rows = records file;
                        rows = (case limit of None \<Rightarrow> rows | Some n \<Rightarrow> slice_to n rows)
                    in (case prescan Map.empty (enumerate_from 0 rows) of
                          Inl e \<Rightarrow> (Inl e, init_state)
                        | Inr name_candidates \<Rightarrow>
                            (case main_loop net index_field name_candidates
                                    (enumerate_from 1 rows) [] init_state of
                               (Inl e, s) \<Rightarrow> (Inl e, s)
                             | (Inr updated_rows, s) \<Rightarrow>
                                 (Inr \<lparr>header = output_fieldnames index_field,
                                       body = map (dict_to_list (output_fieldnames index_field))
                                                  updated_rows\<rparr>,
                                  s))))))"

subsection \<open>Reading a trace\<close>

text \<open>
  The queries searched, the identifiers fetched and the keys whose resolution was started,
  each in the order of the trace.
\<close>

fun searches :: "event list \<Rightarrow> string list" where
  "searches [] = []"
| "searches (Request (ESearch q) # es) = q # searches es"
| "searches (e # es) = searches es"

fun fetches :: "event list \<Rightarrow> string list" where
  "fetches [] = []"
| "fetches (Request (EFetch t) # es) = t # fetches es"
| "fetches (e # es) = fetches es"

fun resolved :: "event list \<Rightarrow> key list" where
  "resolved [] = []"
| "resolved (Resolve k # es) = k # resolved es"
| "resolved (e # es) = resolved es"

subsection \<open>Synonym extraction, as the specification words it\<close>

text \<open>
  The text of an element and the display name of a \<open>Name\<close> entry, empty when there is none;
  the values of the alternate-names section in the order of the field kinds: exact synonym,
  equivalent name, database-assigned synonym, database-assigned common name, generic common
  name, then the display names of the \<open>Name\<close> entries; and the synonym list: those values
  trimmed, the empty ones dropped, every repeat after the first removed.
\<close>

definition element_text :: "element \<Rightarrow> string" where
  "element_text e = (case text_of e of None \<Rightarrow> [] | Some t \<Rightarrow> t)"

definition disp_name :: "element \<Rightarrow> string" where
  "disp_name name_elem = (case findtext name_elem ''DispName'' of None \<Rightarrow> [] | Some d \<Rightarrow> d)"

definition collected_in_order :: "element \<Rightarrow> string list" where
  "collected_in_order other_names =
     map element_text (findall other_names ''Synonym'')
     @ map element_text (findall other_names ''EquivalentName'')
     @ map element_text (findall other_names ''GenbankSynonym'')
     @ map element_text (findall other_names ''GenbankCommonName'')
     @ map element_text (findall other_names ''CommonName'')
     @ map disp_name (findall other_names ''Name'')"

definition spec_synonyms :: "element \<Rightarrow> string list" where
  "spec_synonyms other_names =
     first_seen (filter (\<lambda>v. v \<noteq> []) (map strip (collected_in_order other_names)))"

subsection \<open>Invariants of the run\<close>

text \<open>
  No query, no identifier and no key occurs twice in a trace; and whatever the trace has
  searched, fetched or started to resolve has its entry in the cache that guards it.
\<close>

definition once :: "event list \<Rightarrow> bool" where
  "once tr = (distinct (searches tr) \<and> distinct (fetches tr) \<and> distinct (resolved tr))"

definition caches_cover :: "state \<Rightarrow> bool" where
  "caches_cover s =
     (set (searches (trace s)) \<subseteq> dom (query_cache s)
      \<and> set (fetches (trace s)) \<subseteq> dom (synonym_cache s)
      \<and> set (resolved (trace s)) \<subseteq> dom (taxid_cache s))"

subsection \<open>Sample inputs\<close>

text \<open>A service that is never reached: every request fails.\<close>

definition offline :: network where
  "offline tr rq = RequestException"

text \<open>A service that answers every request with text that is not XML.\<close>

definition garbled :: network where
  "garbled tr rq = Response None"

definition no_headers :: csv_file where
  "no_headers = \<lparr>fieldnames = None, records = []\<rparr>"

text \<open>
  A file whose only line is blank: \<open>csv.reader\<close> reads the line as the empty list, which
  becomes the \<open>fieldnames\<close> of the \<open>DictReader\<close>.
\<close>

definition blank_header :: csv_file where
  "blank_header = \<lparr>fieldnames = Some [], records = []\<rparr>"

text \<open>A document with no child at all, and a taxon record without alternate names.\<close>

definition empty_doc :: element where
  "empty_doc = Element ''eSearchResult'' None []"

definition bare_taxon :: element where
  "bare_taxon = Element ''TaxaSet'' None [Element ''Taxon'' None [Element ''ScientificName'' (Some ''Malus'') []]]"

definition answers_empty :: network where
  "answers_empty tr rq = Response (Some empty_doc)"

text \<open>A table of two rows, and a table whose first column is named \<open>synonyms_ncbi\<close>.\<close>

definition two_rows :: csv_file where
  "two_rows =
     \<lparr>fieldnames = Some [''id'', ''food_com'', ''food_sci''],
      records = [[''id'' \<mapsto> Str ''1'', ''food_com'' \<mapsto> Str ''apple'', ''food_sci'' \<mapsto> Str []],
                 [''id'' \<mapsto> Str ''2'', ''food_com'' \<mapsto> Str ''pear'', ''food_sci'' \<mapsto> Str []]]\<rparr>"

definition ncbi_first :: csv_file where
  "ncbi_first =
     \<lparr>fieldnames = Some [''synonyms_ncbi'', ''food_com'', ''food_sci''],
      records = [[''synonyms_ncbi'' \<mapsto> Str ''7'', ''food_com'' \<mapsto> Str [],
                  ''food_sci'' \<mapsto> Str []]]\<rparr>"

text \<open>
  A service that answers every search with the identifier 4081 and every fetch with a small
  taxon record, and a table of two rows with the same scientific name.
\<close>

definition id_doc :: element where
  "id_doc =
     Element ''eSearchResult'' None
       [Element ''Count'' (Some ''1'') [],
        Element ''IdList'' None [Element ''Id'' (Some ''4081'') []]]"

definition tomato_names :: element where
  "tomato_names =
     Element ''OtherNames'' None
       [Element ''GenbankCommonName'' (Some ''tomato'') [],
        Element ''Synonym'' (Some ''Lycopersicon esculentum'') [],
        Element ''Name'' None
          [Element ''ClassCDE'' (Some ''misspelling'') [],
           Element ''DispName'' (Some '' tomato '') []],
        Element ''CommonName'' (Some ''  '') [],
        Element ''EquivalentName'' (Some ''Tomato'') [],
        Element ''Synonym'' (Some ''Solanum esculentum'') []]"

definition tomato_taxon :: element where
  "tomato_taxon = Element ''Taxon'' None [Element ''TaxId'' (Some ''4081'') [], tomato_names]"

definition tomato_doc :: element where
  "tomato_doc = Element ''TaxaSet'' None [tomato_taxon]"

definition tomato_net :: network where
  "tomato_net tr rq =
     (case rq of
        ESearch q \<Rightarrow> Response (Some id_doc)
      | EFetch t \<Rightarrow> Response (Some tomato_doc))"

definition tomato_rows :: csv_file where
  "tomato_rows =
     \<lparr>fieldnames = Some [''id'', ''food_com'', ''food_sci'', ''synonyms_open_tree_of_life'',
                         ''synonyms_wiki_search''],
      records =
        [[''id'' \<mapsto> Str ''1'', ''food_com'' \<mapsto> Str ''tomato'',
          ''food_sci'' \<mapsto> Str ''Solanum lycopersicum'',
          ''synonyms_open_tree_of_life'' \<mapsto> Str ''a'', ''synonyms_wiki_search'' \<mapsto> Str ''b''],
         [''id'' \<mapsto> Str ''2'', ''food_com'' \<mapsto> Str ''cherry tomato'',
          ''food_sci'' \<mapsto> Str ''Solanum_lycopersicum '',
          ''synonyms_open_tree_of_life'' \<mapsto> Str ''c'', ''synonyms_wiki_search'' \<mapsto> Str ''d'']]\<rparr>"

definition tomato_output :: csv_output where
  "tomato_output =
     \<lparr>header = [''id'', ''food_com'', ''food_sci'', ''synonyms_open_tree_of_life'',
                 ''synonyms_wiki_search'', ''synonyms_ncbi''],
      body = [[''1'', ''tomato'', ''Solanum lycopersicum'', ''a'', ''b'',
               ''Lycopersicon esculentum; Solanum esculentum; Tomato; tomato''],
              [''2'', ''cherry tomato'', ''Solanum_lycopersicum '', ''c'', ''d'',
               ''Lycopersicon esculentum; Solanum esculentum; Tomato; tomato'']]\<rparr>"

subsection \<open>Facts about the string functions\<close>

lemma fromkeys_snoc:
  "fromkeys (xs @ [x]) = (if x \<in> set (fromkeys xs) then fromkeys xs else fromkeys xs @ [x])"
  by (simp add: fromkeys_def)

lemma fromkeys_Nil: "fromkeys [] = []"
  by (simp add: fromkeys_def)

lemma set_fromkeys: "set (fromkeys xs) = set xs"
  by (induction xs rule: rev_induct) (auto simp: fromkeys_snoc fromkeys_Nil)

lemma distinct_fromkeys: "distinct (fromkeys xs)"
  by (induction xs rule: rev_induct) (auto simp: fromkeys_snoc fromkeys_Nil)

lemma fromkeys_first_seen: "fromkeys xs = first_seen xs"
  by (induction xs rule: rev_induct)
     (auto simp: fromkeys_snoc fromkeys_Nil first_seen_def set_fromkeys)

lemma first_seen_distinct_set: "distinct (first_seen xs) \<and> set (first_seen xs) = set xs"
  by (simp add: first_seen_def)

lemmas clean_defs =
  format_scientific_name_def format_common_name_def strip_def lstrip_def rstrip_def
  replace_char_def is_space_def

lemmas candidate_defs =
  candidate_queries_def candidates_def endswith_def lower_def lower_char_def is_upper_def
  rsplit1_first_def fromkeys_def

subsection \<open>Identity keys\<close>

text \<open>
  C6.  For raw names that are strings, with \<open>sci\<close> and \<open>com\<close> their cleaned forms, \<open>build_key\<close>
  never raises; it returns the \<open>sci\<close> variant with the cleaned scientific name exactly when
  that name is not empty, whatever the common name is; otherwise the \<open>com\<close> variant with the
  cleaned common name when that is not empty; and the \<open>row\<close> variant, with the decimal text
  of the fallback index, exactly when both cleaned names are empty.
\<close>

theorem build_key_variants:
  assumes "format_scientific_name (Str scientific) = Inr sci"
    and "format_common_name (Str common) = Inr com"
  shows "(sci \<noteq> [] \<longrightarrow> build_key (Str scientific) (Str common) idx = Inr (''sci'', sci))
       \<and> (sci = [] \<and> com \<noteq> [] \<longrightarrow>
            build_key (Str scientific) (Str common) idx = Inr (''com'', com))
       \<and> (sci = [] \<and> com = [] \<longrightarrow>
            build_key (Str scientific) (Str common) idx = Inr (''row'', str_int idx))
       \<and> ((\<exists>v. build_key (Str scientific) (Str common) idx = Inr (''sci'', v)) \<longleftrightarrow> sci \<noteq> [])
       \<and> ((\<exists>v. build_key (Str scientific) (Str common) idx = Inr (''com'', v))
            \<longleftrightarrow> sci = [] \<and> com \<noteq> [])
       \<and> ((\<exists>v. build_key (Str scientific) (Str common) idx = Inr (''row'', v))
            \<longleftrightarrow> sci = [] \<and> com = [])"
  using assms by (auto simp: build_key_def)

theorem build_key_variants_witness:
  "build_key (Str ''Malus_domestica '') (Str ''apple'') 4 = Inr (''sci'', ''Malus domestica'')
   \<and> build_key (Str '' _ '') (Str '' red_apple'') 4 = Inr (''com'', ''red apple'')
   \<and> build_key (Str '' _ '') (Str []) 4 = Inr (''row'', ''4'')"
proof -
  have s1: "format_scientific_name (Str ''Malus_domestica '') = Inr ''Malus domestica''"
    by (simp add: clean_defs)
  have s2: "format_scientific_name (Str '' _ '') = Inr []"
    by (simp add: clean_defs)
  have c1: "format_common_name (Str ''apple'') = Inr ''apple''"
    by (simp add: clean_defs)
  have c2: "format_common_name (Str '' red_apple'') = Inr ''red apple''"
    by (simp add: clean_defs)
  have c3: "format_common_name (Str []) = Inr []"
    by (simp add: clean_defs)
  have d: "str_int 4 = ''4''"
    by (simp add: str_int_def str_nat.simps digit_char_def)
  show ?thesis
    using build_key_variants [OF s1 c1, of 4] build_key_variants [OF s2 c2, of 4]
      build_key_variants [OF s2 c3, of 4] d
    by simp
qed

subsection \<open>Candidate queries\<close>

text \<open>
  C1, as the code has it.  For the scientific name \<open>Foo sp.\<close> and no common name the
  candidate list is \<open>Foo sp.\<close>, \<open>Foo sp\<close>, \<open>Foo\<close>: the name ends with a period, so the
  period-stripped candidate is generated as well as the one without the species suffix.
\<close>

theorem candidate_queries_foo_sp:
  "candidate_queries (Str ''Foo sp.'') (Str []) = Inr [''Foo sp.'', ''Foo sp'', ''Foo'']"
  by (simp add: candidate_defs clean_defs)

text \<open>C1, as the claim states it, fails: the list is not \<open>Foo sp.\<close>, \<open>Foo\<close>.\<close>

theorem candidate_queries_foo_sp_counterexample:
  "candidate_queries (Str ''Foo sp.'') (Str []) \<noteq> Inr [''Foo sp.'', ''Foo'']"
  by (simp add: candidate_defs clean_defs)

text \<open>
  C7.  For raw names that are strings, \<open>candidate_queries\<close> never raises and its list has no
  duplicate and no empty string; it is the list of the non-empty candidates with every
  repeat after the first occurrence removed, the rest in their order; and it is empty when
  both raw names are empty.
\<close>

theorem candidate_queries_distinct_nonempty:
  "(case candidate_queries (Str scientific) (Str common) of
      Inl e \<Rightarrow> False
    | Inr queries \<Rightarrow>
        distinct queries \<and> [] \<notin> set queries
        \<and> (case (format_scientific_name (Str scientific), format_common_name (Str common)) of
             (Inr sci, Inr com) \<Rightarrow>
               queries = first_seen (filter (\<lambda>c. c \<noteq> []) (candidates sci com))
           | _ \<Rightarrow> False))
   \<and> candidate_queries (Str []) (Str []) = Inr []"
proof -
  have "candidate_queries (Str []) (Str []) = Inr []"
    by (simp add: candidate_defs clean_defs)
  moreover have "case candidate_queries (Str scientific) (Str common) of
      Inl e \<Rightarrow> False
    | Inr queries \<Rightarrow>
        distinct queries \<and> [] \<notin> set queries
        \<and> (case (format_scientific_name (Str scientific), format_common_name (Str common)) of
             (Inr sci, Inr com) \<Rightarrow>
               queries = first_seen (filter (\<lambda>c. c \<noteq> []) (candidates sci com))
           | _ \<Rightarrow> False)"
    by (simp add: candidate_queries_def format_scientific_name_def format_common_name_def
        fromkeys_first_seen first_seen_distinct_set)
  ultimately show ?thesis by simp
qed

subsection \<open>Missing headers\<close>

text \<open>
  A file with no line at all: the reader has no field names, \<open>main\<close> raises the \<open>ValueError\<close>
  \<open>CSV missing headers\<close>, and the trace is empty.
\<close>

lemma main_no_line_value_error:
  "fieldnames file = None \<Longrightarrow>
     fst (main net (Some file) limit) = Inl (ValueError ''CSV missing headers'')
     \<and> trace (snd (main net (Some file) limit)) = []"
  by (simp add: main_def init_state_def)

text \<open>
  C2.  A file whose header line is blank is missing its headers as well, and there the code
  does not raise the value error: the field names of the reader are the empty list, the
  test \<open>reader.fieldnames is None\<close> lets it pass, and \<open>reader.fieldnames[0]\<close> raises
  \<open>IndexError\<close>.  The run still ends before any request is sent; the file with no line at
  all gets the \<open>ValueError\<close>.
\<close>

theorem main_blank_header_index_error:
  "fst (main offline (Some blank_header) None) = Inl IndexError
   \<and> fst (main offline (Some blank_header) None) \<noteq> Inl (ValueError ''CSV missing headers'')
   \<and> trace (snd (main offline (Some blank_header) None)) = []
   \<and> fst (main offline (Some no_headers) None) = Inl (ValueError ''CSV missing headers'')"
  by (simp add: main_def init_state_def blank_header_def no_headers_def)

subsection \<open>The two passes compute the same key\<close>

lemma keys_shift:
  "map prescan_key (enumerate_from n rows) = map main_key (enumerate_from (n + 1) rows)"
  by (induction rows arbitrary: n) (simp_all add: prescan_key_def main_key_def)

text \<open>
  C10.  Row by row, the key that the pre-scan computes over \<open>enumerate(rows)\<close> is the key
  that the main pass computes over \<open>enumerate(rows, start=1)\<close> with \<open>idx - 1\<close>, a raised
  error included.
\<close>

theorem prescan_key_eq_main_key:
  "map prescan_key (enumerate_from 0 rows) = map main_key (enumerate_from 1 rows)"
  using keys_shift [of 0 rows] by simp

subsection \<open>XML responses\<close>

lemma search_taxid_parsed:
  "net tr (ESearch query) = Response (Some root) \<Longrightarrow>
     fst (search_taxid net query tr) =
       Inr (case find_child root ''IdList'' of
              None \<Rightarrow> None
            | Some id_list \<Rightarrow> first_id (findall id_list ''Id''))"
  by (simp add: search_taxid_def Let_def split: option.splits)

lemma extract_synonyms_total: "\<exists>synonyms. extract_synonyms (Some root) = Inr synonyms"
  by (simp add: extract_synonyms_def split: option.splits)

lemma extract_synonyms_absent:
  "find_child root ''Taxon'' = None \<Longrightarrow> extract_synonyms (Some root) = Inr []"
  "find_child root ''Taxon'' = Some taxon \<Longrightarrow> find_child taxon ''OtherNames'' = None \<Longrightarrow>
     extract_synonyms (Some root) = Inr []"
  by (simp_all add: extract_synonyms_def)

text \<open>
  C3, as the code has it.  For a response whose text is well-formed XML, of whatever shape:
  the search does not raise, and returns no identifier when the \<open>IdList\<close> element is absent
  or has no \<open>Id\<close> child; synonym extraction does not raise, and returns the empty list when
  the \<open>Taxon\<close> element is absent or has no \<open>OtherNames\<close> child.
\<close>

theorem xml_missing_element_is_empty:
  "(net tr (ESearch query) = Response (Some root) \<longrightarrow>
       (\<exists>found. fst (search_taxid net query tr) = Inr found)
       \<and> (find_child root ''IdList'' = None \<longrightarrow> fst (search_taxid net query tr) = Inr None)
       \<and> (\<forall>id_list. find_child root ''IdList'' = Some id_list \<and> findall id_list ''Id'' = []
            \<longrightarrow> fst (search_taxid net query tr) = Inr None))
   \<and> (\<exists>synonyms. extract_synonyms (Some root) = Inr synonyms)
   \<and> (find_child root ''Taxon'' = None \<longrightarrow> extract_synonyms (Some root) = Inr [])
   \<and> (\<forall>taxon. find_child root ''Taxon'' = Some taxon \<and> find_child taxon ''OtherNames'' = None
        \<longrightarrow> extract_synonyms (Some root) = Inr [])"
  using extract_synonyms_total [of root]
  by (auto simp: search_taxid_parsed extract_synonyms_absent)

theorem xml_missing_element_is_empty_witness:
  "fst (search_taxid answers_empty ''Foo'' []) = Inr None
   \<and> extract_synonyms (Some empty_doc) = Inr []
   \<and> extract_synonyms (Some bare_taxon) = Inr []"
proof -
  have a: "answers_empty [] (ESearch ''Foo'') = Response (Some empty_doc)"
    by (simp add: answers_empty_def)
  have b: "find_child empty_doc ''IdList'' = None" "find_child empty_doc ''Taxon'' = None"
    by (simp_all add: find_child_def empty_doc_def)
  have c: "find_child bare_taxon ''Taxon''
             = Some (Element ''Taxon'' None [Element ''ScientificName'' (Some ''Malus'') []])"
    "find_child (Element ''Taxon'' None [Element ''ScientificName'' (Some ''Malus'') []])
       ''OtherNames'' = None"
    by (simp_all add: find_child_def bare_taxon_def)
  show ?thesis
    using xml_missing_element_is_empty [of answers_empty "[]" "''Foo''" empty_doc]
      xml_missing_element_is_empty [of answers_empty "[]" "''Foo''" bare_taxon] a b c
    by simp
qed

text \<open>
  C3, as the claim states it, fails for a response that is not well-formed XML:
  \<open>ElementTree.fromstring\<close> raises \<open>ParseError\<close>, in the search and in the fetch, and neither
  function catches it.
\<close>

theorem malformed_xml_counterexample:
  "fst (search_taxid garbled ''Foo'' []) = Inl ParseError
   \<and> fst (fetch_synonyms_for_taxid garbled ''4081'' []) = Inl ParseError"
  by (simp add: garbled_def search_taxid_def fetch_synonyms_for_taxid_def extract_synonyms_def)

subsection \<open>What a successful run writes\<close>

lemmas run_defs =
  main_def init_state_def slice_to_def prescan_key_def main_key_def build_key_def row_get_def
  process_row_def taxid_for_key_def synonyms_for_taxid_def search_taxid_def
  fetch_synonyms_for_taxid_def truthy_def updated_row_def dict_to_list_def field_text_def
  output_fieldnames_def OPEN_TREE_FIELD_def WIKI_FIELD_def NCBI_FIELD_def
  str_int_def str_nat.simps digit_char_def

lemma main_limit_slice:
  "main net (Some file) (Some n)
     = main net (Some (file\<lparr>records := slice_to n (records file)\<rparr>)) None"
  by (simp add: main_def split: option.splits list.splits)

lemma main_loop_rows:
  "main_loop net index_field nc irs updated s = (Inr rs, s') \<Longrightarrow>
     \<exists>syns. length syns = length irs
       \<and> rs = updated @ map (\<lambda>(ir, syn). updated_row index_field (snd ir) syn) (zip irs syns)"
proof (induction irs arbitrary: updated s)
  case Nil
  then show ?case by simp
next
  case (Cons ir irs)
  from Cons.prems obtain r s1 where
    p: "process_row net index_field nc ir s = (Inr r, s1)" and
    l: "main_loop net index_field nc irs (updated @ [r]) s1 = (Inr rs, s')"
    by (auto split: prod.splits sum.splits)
  from p obtain syn where r: "r = updated_row index_field (snd ir) syn"
    by (auto simp: process_row_def Let_def split: prod.splits sum.splits)
  from Cons.IH [OF l] obtain syns where
    "length syns = length irs"
    "rs = (updated @ [r])
          @ map (\<lambda>(ir, syn). updated_row index_field (snd ir) syn) (zip irs syns)"
    by blast
  then have "length (syn # syns) = length (ir # irs) \<and>
    rs = updated @ map (\<lambda>(ir, syn). updated_row index_field (snd ir) syn)
                       (zip (ir # irs) (syn # syns))"
    using r by simp
  then show ?case by blast
qed

lemma map_snd_enumerate_from: "map snd (enumerate_from n xs) = xs"
  by (induction xs arbitrary: n) simp_all

lemma length_enumerate_from: "length (enumerate_from n xs) = length xs"
  by (induction xs arbitrary: n) simp_all

lemma snd_nth_enumerate_from: "i < length xs \<Longrightarrow> snd (enumerate_from n xs ! i) = xs ! i"
  using map_snd_enumerate_from [of n xs] length_enumerate_from [of n xs]
  by (metis nth_map)

lemma main_success:
  assumes "fst (main net input None) = Inr out"
  obtains fl index_field rest syns where
    "input = Some fl" and "fieldnames fl = Some (index_field # rest)"
    and "length syns = length (records fl)"
    and "header out = output_fieldnames index_field"
    and "body out = map (dict_to_list (output_fieldnames index_field))
                      (map (\<lambda>(row, syn). updated_row index_field row syn)
                           (zip (records fl) syns))"
proof -
  from assms obtain fl index_field rest nc rs s where
    i: "input = Some fl" and f: "fieldnames fl = Some (index_field # rest)" and
    l: "main_loop net index_field nc (enumerate_from 1 (records fl)) [] init_state = (Inr rs, s)"
    and o: "out = \<lparr>header = output_fieldnames index_field,
                   body = map (dict_to_list (output_fieldnames index_field)) rs\<rparr>"
    by (auto simp: main_def Let_def split: option.splits list.splits sum.splits prod.splits)
  from main_loop_rows [OF l] obtain syns where
    n: "length syns = length (enumerate_from 1 (records fl))" and
    r: "rs = map (\<lambda>(ir, syn). updated_row index_field (snd ir) syn)
               (zip (enumerate_from 1 (records fl)) syns)"
    by auto
  have "map (\<lambda>(ir, syn). updated_row index_field (snd ir) syn)
          (zip (enumerate_from 1 (records fl)) syns)
      = map (\<lambda>(row, syn). updated_row index_field row syn) (zip (records fl) syns)"
    using n by (intro nth_equalityI) (simp_all add: length_enumerate_from snd_nth_enumerate_from)
  with r have r': "rs = map (\<lambda>(row, syn). updated_row index_field row syn)
                          (zip (records fl) syns)"
    by simp
  show thesis
    using that [of fl index_field rest syns] i f n r' o by (simp add: length_enumerate_from)
qed

lemma written_fields:
  "dict_to_list (output_fieldnames index_field) (updated_row index_field row syn) =
     [if index_field = NCBI_FIELD then syn else field_text (row index_field),
      field_text (row ''food_com''), field_text (row ''food_sci''),
      field_text (row OPEN_TREE_FIELD), field_text (row WIKI_FIELD), syn]"
  by (auto simp: dict_to_list_def output_fieldnames_def updated_row_def row_get_def
      field_text_def OPEN_TREE_FIELD_def WIKI_FIELD_def NCBI_FIELD_def split: option.splits)

lemma output_rows_no_limit:
  assumes "fst (main net (Some file) None) = Inr out"
  shows "\<exists>index_field rest. fieldnames file = Some (index_field # rest)
     \<and> header out = [index_field, ''food_com'', ''food_sci'', ''synonyms_open_tree_of_life'',
                      ''synonyms_wiki_search'', ''synonyms_ncbi'']
     \<and> length (body out) = length (records file)
     \<and> (\<forall>i < length (records file).
          length (body out ! i) = 6
          \<and> (index_field \<noteq> ''synonyms_ncbi'' \<longrightarrow>
               body out ! i ! 0 = field_text ((records file ! i) index_field))
          \<and> body out ! i ! 1 = field_text ((records file ! i) ''food_com'')
          \<and> body out ! i ! 2 = field_text ((records file ! i) ''food_sci'')
          \<and> body out ! i ! 3 = field_text ((records file ! i) ''synonyms_open_tree_of_life'')
          \<and> body out ! i ! 4 = field_text ((records file ! i) ''synonyms_wiki_search''))"
proof -
  from assms obtain fl index_field rest syns where
    i: "Some file = Some fl" and f: "fieldnames fl = Some (index_field # rest)"
    and n: "length syns = length (records fl)"
    and h: "header out = output_fieldnames index_field"
    and b: "body out = map (dict_to_list (output_fieldnames index_field))
                      (map (\<lambda>(row, syn). updated_row index_field row syn)
                           (zip (records fl) syns))"
    by (rule main_success)
  from i have fl: "fl = file" by simp
  have rows: "\<forall>i < length (records file).
          body out ! i =
            [if index_field = NCBI_FIELD then syns ! i
             else field_text ((records file ! i) index_field),
             field_text ((records file ! i) ''food_com''),
             field_text ((records file ! i) ''food_sci''),
             field_text ((records file ! i) OPEN_TREE_FIELD),
             field_text ((records file ! i) WIKI_FIELD), syns ! i]"
    using b n fl by (simp add: written_fields)
  have len: "length (body out) = length (records file)"
    using b n fl by simp
  have hd: "header out = [index_field, ''food_com'', ''food_sci'',
      ''synonyms_open_tree_of_life'', ''synonyms_wiki_search'', ''synonyms_ncbi'']"
    using h by (simp add: output_fieldnames_def OPEN_TREE_FIELD_def WIKI_FIELD_def NCBI_FIELD_def)
  from rows have "\<forall>i < length (records file).
          length (body out ! i) = 6
          \<and> (index_field \<noteq> ''synonyms_ncbi'' \<longrightarrow>
               body out ! i ! 0 = field_text ((records file ! i) index_field))
          \<and> body out ! i ! 1 = field_text ((records file ! i) ''food_com'')
          \<and> body out ! i ! 2 = field_text ((records file ! i) ''food_sci'')
          \<and> body out ! i ! 3 = field_text ((records file ! i) ''synonyms_open_tree_of_life'')
          \<and> body out ! i ! 4 = field_text ((records file ! i) ''synonyms_wiki_search'')"
    by (simp add: OPEN_TREE_FIELD_def WIKI_FIELD_def NCBI_FIELD_def)
  with f fl hd len show ?thesis by blast
qed

lemmas xml_defs =
  find_child_def findall_def findtext_def extract_synonyms_def synonym_tags_def
  append_texts_def append_disp_names_def ordered_keys_def

lemma extract_tomato:
  "extract_synonyms (Some tomato_doc)
     = Inr [''Lycopersicon esculentum'', ''Solanum esculentum'', ''Tomato'', ''tomato'']"
  by (simp add: tomato_doc_def tomato_taxon_def tomato_names_def xml_defs strip_def lstrip_def
      rstrip_def is_space_def)

lemma tomato_run:
  "main tomato_net (Some tomato_rows) None =
     (Inr tomato_output,
      \<lparr>query_cache = [''Solanum lycopersicum'' \<mapsto> Some ''4081''],
        taxid_cache = [(''sci'', ''Solanum lycopersicum'') \<mapsto> Some ''4081''],
        synonym_cache = [''4081'' \<mapsto> ''Lycopersicon esculentum; Solanum esculentum; Tomato; tomato''],
        trace = [Resolve (''sci'', ''Solanum lycopersicum''),
                 Request (ESearch ''Solanum lycopersicum''), Sleep,
                 Request (EFetch ''4081''), Sleep]\<rparr>)"
  by (simp add: tomato_rows_def tomato_net_def tomato_output_def id_doc_def extract_tomato
      run_defs candidate_defs clean_defs find_child_def findall_def)

subsection \<open>The limit\<close>

text \<open>
  C4, as the code has it.  With a limit \<open>n\<close> that is not negative the run is the run without
  a limit on the first \<open>n\<close> rows of the table (all of them when there are fewer); with a
  negative \<open>n\<close> it is the run on the table without its last \<open>- n\<close> rows; and a run without a
  limit that succeeds writes one row for every row of the table.
\<close>

theorem main_limit_rows:
  "(0 \<le> n \<longrightarrow> main net (Some file) (Some n)
        = main net (Some (file\<lparr>records := take (nat n) (records file)\<rparr>)) None)
   \<and> (n < 0 \<longrightarrow> main net (Some file) (Some n)
        = main net (Some (file\<lparr>records := rev (drop (nat (- n)) (rev (records file)))\<rparr>)) None)
   \<and> (\<forall>out. fst (main net (Some file) None) = Inr out \<longrightarrow>
        length (body out) = length (records file))"
proof -
  have "\<forall>out. fst (main net (Some file) None) = Inr out \<longrightarrow>
        length (body out) = length (records file)"
    using output_rows_no_limit by blast
  then show ?thesis
    by (simp add: main_limit_slice slice_to_def drop_rev)
qed

theorem main_limit_rows_witness:
  "main tomato_net (Some tomato_rows) (Some 1)
     = main tomato_net (Some (tomato_rows\<lparr>records := take (nat 1) (records tomato_rows)\<rparr>)) None
   \<and> main tomato_net (Some tomato_rows) (Some (- 1))
     = main tomato_net
         (Some (tomato_rows\<lparr>records := rev (drop (nat (- (- 1))) (rev (records tomato_rows)))\<rparr>))
         None
   \<and> fst (main tomato_net (Some tomato_rows) None) = Inr tomato_output
   \<and> length (body tomato_output) = length (records tomato_rows)"
proof -
  have h: "fst (main tomato_net (Some tomato_rows) None) = Inr tomato_output"
    by (simp add: tomato_run)
  show ?thesis
    using h main_limit_rows [of 1 tomato_net tomato_rows]
      main_limit_rows [of "- 1" tomato_net tomato_rows]
    by simp
qed

text \<open>
  C4, as the claim states it, fails for a negative limit: with the limit \<open>-1\<close> the run on
  the table of two rows processes its first row, which a run on the first \<open>-1\<close> rows (none)
  does not.
\<close>

theorem main_limit_negative_counterexample:
  "fst (main offline (Some two_rows) (Some (- 1)))
     \<noteq> fst (main offline (Some (two_rows\<lparr>records := take (nat (- 1)) (records two_rows)\<rparr>))
              None)
   \<and> fst (main offline (Some two_rows) (Some (- 1)))
     = Inr \<lparr>header = [''id'', ''food_com'', ''food_sci'', ''synonyms_open_tree_of_life'',
                       ''synonyms_wiki_search'', ''synonyms_ncbi''],
            body = [[''1'', ''apple'', [], [], [], []]]\<rparr>"
  by (simp add: two_rows_def offline_def run_defs candidate_defs clean_defs)

subsection \<open>The columns of the output\<close>

text \<open>
  C9, as the code has it.  When a run succeeds, the header is the index column followed by
  \<open>food_com\<close>, \<open>food_sci\<close>, \<open>synonyms_open_tree_of_life\<close>, \<open>synonyms_wiki_search\<close> and
  \<open>synonyms_ncbi\<close>; there is one output row for every processed row, of six fields; the
  fields 1 to 4 are the texts of the input row's cells in those columns; and the field 0 is
  the text of the input row's index cell when the index column is not named
  \<open>synonyms_ncbi\<close>.
\<close>

theorem output_rows_pass_through:
  assumes "fst (main net (Some file) limit) = Inr out"
    and "rows = (case limit of None \<Rightarrow> records file | Some n \<Rightarrow> slice_to n (records file))"
  shows "\<exists>index_field rest. fieldnames file = Some (index_field # rest)
     \<and> header out = [index_field, ''food_com'', ''food_sci'', ''synonyms_open_tree_of_life'',
                      ''synonyms_wiki_search'', ''synonyms_ncbi'']
     \<and> length (body out) = length rows
     \<and> (\<forall>i < length rows.
          length (body out ! i) = 6
          \<and> (index_field \<noteq> ''synonyms_ncbi'' \<longrightarrow>
               body out ! i ! 0 = field_text ((rows ! i) index_field))
          \<and> body out ! i ! 1 = field_text ((rows ! i) ''food_com'')
          \<and> body out ! i ! 2 = field_text ((rows ! i) ''food_sci'')
          \<and> body out ! i ! 3 = field_text ((rows ! i) ''synonyms_open_tree_of_life'')
          \<and> body out ! i ! 4 = field_text ((rows ! i) ''synonyms_wiki_search''))"
proof (cases limit)
  case None
  with assms output_rows_no_limit [of net "file" out] show ?thesis by simp
next
  case (Some n)
  with assms(1) have "fst (main net (Some (file\<lparr>records := slice_to n (records file)\<rparr>)) None)
      = Inr out"
    by (simp add: main_limit_slice)
  from output_rows_no_limit [OF this] Some assms(2) show ?thesis by simp
qed

theorem output_rows_pass_through_witness:
  "fst (main tomato_net (Some tomato_rows) None) = Inr tomato_output
   \<and> header tomato_output = [''id'', ''food_com'', ''food_sci'', ''synonyms_open_tree_of_life'',
                              ''synonyms_wiki_search'', ''synonyms_ncbi'']
   \<and> length (body tomato_output) = 2
   \<and> body tomato_output ! 1 ! 0 = ''2''
   \<and> body tomato_output ! 1 ! 1 = ''cherry tomato''
   \<and> body tomato_output ! 1 ! 2 = ''Solanum_lycopersicum ''
   \<and> body tomato_output ! 1 ! 3 = ''c''
   \<and> body tomato_output ! 1 ! 4 = ''d''"
proof -
  have h: "fst (main tomato_net (Some tomato_rows) None) = Inr tomato_output"
    by (simp add: tomato_run)
  have r: "records tomato_rows
      = (case None of None \<Rightarrow> records tomato_rows
         | Some n \<Rightarrow> slice_to n (records tomato_rows))"
    by simp
  show ?thesis
    using h output_rows_pass_through [OF h r]
    by (simp add: tomato_output_def)
qed

text \<open>
  C9, as the claim states it, fails when the first column of the input is itself named
  \<open>synonyms_ncbi\<close>: the entry of the computed field replaces the index entry in the
  dictionary of the row, and the index value \<open>7\<close> is not written.
\<close>

theorem index_column_counterexample:
  "field_text ((records ncbi_first ! 0) ''synonyms_ncbi'') = ''7''
   \<and> fst (main offline (Some ncbi_first) None)
     = Inr \<lparr>header = [''synonyms_ncbi'', ''food_com'', ''food_sci'',
                       ''synonyms_open_tree_of_life'', ''synonyms_wiki_search'',
                       ''synonyms_ncbi''],
            body = [[[], [], [], [], [], []]]\<rparr>"
  by (simp add: ncbi_first_def offline_def run_defs candidate_defs clean_defs)

subsection \<open>Every lookup happens at most once\<close>

lemma searches_append: "searches (xs @ ys) = searches xs @ searches ys"
  by (induction xs rule: searches.induct) simp_all

lemma fetches_append: "fetches (xs @ ys) = fetches xs @ fetches ys"
  by (induction xs rule: fetches.induct) simp_all

lemma resolved_append: "resolved (xs @ ys) = resolved xs @ resolved ys"
  by (induction xs rule: resolved.induct) simp_all

lemmas trace_append = searches_append fetches_append resolved_append

lemma snd_search_taxid: "snd (search_taxid net query tr) = tr @ [Request (ESearch query)]"
  by (simp add: search_taxid_def Let_def split: http_result.splits option.splits)

lemma snd_fetch_synonyms:
  "snd (fetch_synonyms_for_taxid net taxid tr) = tr @ [Request (EFetch taxid)]"
  by (simp add: fetch_synonyms_for_taxid_def Let_def split: http_result.splits)

lemma resolve_searches:
  assumes "resolve net queries taxid s = (r, s')"
    and "distinct (searches (trace s))" and "set (searches (trace s)) \<subseteq> dom (query_cache s)"
  shows "distinct (searches (trace s'))
     \<and> (\<forall>t. r = Inr t \<longrightarrow> set (searches (trace s')) \<subseteq> dom (query_cache s'))
     \<and> fetches (trace s') = fetches (trace s) \<and> resolved (trace s') = resolved (trace s)
     \<and> taxid_cache s' = taxid_cache s \<and> synonym_cache s' = synonym_cache s"
  using assms
proof (induction queries arbitrary: taxid s)
  case Nil
  then show ?case by auto
next
  case (Cons query rest)
  show ?case
  proof (cases "query_cache s query")
    case (Some cached)
    with Cons.prems Cons.IH [of cached s] show ?thesis
      by (auto split: if_splits)
  next
    case None
    obtain res tr where st: "search_taxid net query (trace s) = (res, tr)"
      by (cases "search_taxid net query (trace s)")
    with snd_search_taxid [of net query "trace s"]
    have tr: "tr = trace s @ [Request (ESearch query)]" by simp
    have fresh: "query \<notin> set (searches (trace s))"
      using None Cons.prems(3) by auto
    show ?thesis
    proof (cases res)
      case (Inl e)
      with Cons.prems None st tr fresh show ?thesis
        by (auto simp: trace_append)
    next
      case (Inr found)
      define s1 where
        "s1 = s\<lparr>query_cache := (query_cache s)(query \<mapsto> found), trace := tr @ [Sleep]\<rparr>"
      have d1: "distinct (searches (trace s1))"
        using Cons.prems(2) fresh by (simp add: s1_def tr trace_append)
      have c1: "set (searches (trace s1)) \<subseteq> dom (query_cache s1)"
        using Cons.prems(3) by (auto simp: s1_def tr trace_append)
      have o1: "fetches (trace s1) = fetches (trace s)" "resolved (trace s1) = resolved (trace s)"
        "taxid_cache s1 = taxid_cache s" "synonym_cache s1 = synonym_cache s"
        by (simp_all add: s1_def tr trace_append)
      show ?thesis
      proof (cases "truthy found")
        case True
        with Cons.prems(1) None st Inr have "r = Inr found" "s' = s1"
          by (simp_all add: s1_def Let_def)
        with d1 c1 o1 show ?thesis by simp
      next
        case False
        with Cons.prems(1) None st Inr have "resolve net rest found s1 = (r, s')"
          by (simp add: s1_def Let_def)
        from Cons.IH [OF this d1 c1] o1 show ?thesis by simp
      qed
    qed
  qed
qed

lemma taxid_for_key_once:
  assumes "taxid_for_key net key queries s = (r, s')" and "once (trace s)" and "caches_cover s"
  shows "once (trace s') \<and> (\<forall>t. r = Inr t \<longrightarrow> caches_cover s')"
proof (cases "taxid_cache s key")
  case (Some cached)
  with assms show ?thesis by (simp add: taxid_for_key_def)
next
  case None
  define s0 where "s0 = s\<lparr>trace := trace s @ [Resolve key]\<rparr>"
  obtain r0 s1 where rs: "resolve net queries None s0 = (r0, s1)"
    by (cases "resolve net queries None s0")
  have fresh: "key \<notin> set (resolved (trace s))"
    using None assms(3) by (auto simp: caches_cover_def)
  have "distinct (searches (trace s0))" "set (searches (trace s0)) \<subseteq> dom (query_cache s0)"
    using assms(2,3) by (simp_all add: s0_def once_def caches_cover_def trace_append)
  from resolve_searches [OF rs this]
  have a: "distinct (searches (trace s1))"
    and b: "\<forall>t. r0 = Inr t \<longrightarrow> set (searches (trace s1)) \<subseteq> dom (query_cache s1)"
    and c: "fetches (trace s1) = fetches (trace s)" "resolved (trace s1) = resolved (trace s) @ [key]"
      "taxid_cache s1 = taxid_cache s" "synonym_cache s1 = synonym_cache s"
    by (simp_all add: s0_def trace_append)
  have o: "once (trace s1)"
    using a c assms(2) fresh by (simp add: once_def)
  show ?thesis
  proof (cases r0)
    case (Inl e)
    with assms(1) None rs have "s' = s1" "r = Inl e"
      by (simp_all add: taxid_for_key_def s0_def)
    with o show ?thesis by simp
  next
    case (Inr t)
    with assms(1) None rs have s': "s' = s1\<lparr>taxid_cache := (taxid_cache s1)(key \<mapsto> t)\<rparr>"
      by (simp add: taxid_for_key_def s0_def)
    have "caches_cover s'"
      using b c assms(3) Inr by (auto simp: s' caches_cover_def)
    with o s' show ?thesis by simp
  qed
qed

lemma synonyms_for_taxid_once:
  assumes "synonyms_for_taxid net taxid s = (r, s')" and "once (trace s)" and "caches_cover s"
  shows "once (trace s') \<and> (\<forall>v. r = Inr v \<longrightarrow> caches_cover s')"
proof (cases "\<exists>t. taxid = Some t \<and> t \<noteq> [] \<and> synonym_cache s t = None")
  case False
  with assms have "s' = s"
    by (auto simp: synonyms_for_taxid_def split: option.splits if_splits)
  with assms show ?thesis by simp
next
  case True
  then obtain t where t: "taxid = Some t" "t \<noteq> []" "synonym_cache s t = None" by blast
  obtain res tr where f: "fetch_synonyms_for_taxid net t (trace s) = (res, tr)"
    by (cases "fetch_synonyms_for_taxid net t (trace s)")
  with snd_fetch_synonyms [of net t "trace s"]
  have tr: "tr = trace s @ [Request (EFetch t)]" by simp
  have fresh: "t \<notin> set (fetches (trace s))"
    using t(3) assms(3) by (auto simp: caches_cover_def)
  show ?thesis
  proof (cases res)
    case (Inl e)
    with assms t f tr fresh show ?thesis
      by (auto simp: synonyms_for_taxid_def once_def trace_append)
  next
    case (Inr synonyms)
    with assms t f tr fresh show ?thesis
      by (auto simp: synonyms_for_taxid_def once_def caches_cover_def trace_append)
  qed
qed

lemma process_row_once:
  assumes "process_row net index_field nc ir s = (r, s')" and "once (trace s)" and "caches_cover s"
  shows "once (trace s') \<and> (\<forall>v. r = Inr v \<longrightarrow> caches_cover s')"
proof (cases "main_key ir")
  case (Inl e)
  with assms show ?thesis by (simp add: process_row_def)
next
  case (Inr key)
  define queries where "queries = (case nc key of None \<Rightarrow> [] | Some qs \<Rightarrow> qs)"
  obtain r1 s1 where k: "taxid_for_key net key queries s = (r1, s1)"
    by (cases "taxid_for_key net key queries s")
  from taxid_for_key_once [OF k assms(2,3)]
  have o1: "once (trace s1)" and c1: "\<forall>t. r1 = Inr t \<longrightarrow> caches_cover s1" by simp_all
  show ?thesis
  proof (cases r1)
    case (Inl e)
    with assms(1) Inr k o1 show ?thesis
      by (auto simp: process_row_def queries_def)
  next
    case r1: (Inr taxid)
    obtain r2 s2 where y: "synonyms_for_taxid net taxid s1 = (r2, s2)"
      by (cases "synonyms_for_taxid net taxid s1")
    from c1 r1 have "caches_cover s1" by simp
    from synonyms_for_taxid_once [OF y o1 this] assms(1) Inr k r1 y show ?thesis
      by (auto simp: process_row_def queries_def split: sum.splits)
  qed
qed

lemma main_loop_once:
  assumes "main_loop net index_field nc irs updated s = (r, s')"
    and "once (trace s)" and "caches_cover s"
  shows "once (trace s')"
  using assms
proof (induction irs arbitrary: updated s)
  case Nil
  then show ?case by simp
next
  case (Cons ir irs)
  obtain r1 s1 where p: "process_row net index_field nc ir s = (r1, s1)"
    by (cases "process_row net index_field nc ir s")
  from process_row_once [OF p Cons.prems(2,3)]
  have o1: "once (trace s1)" and c1: "\<forall>v. r1 = Inr v \<longrightarrow> caches_cover s1" by simp_all
  show ?case
  proof (cases r1)
    case (Inl e)
    with Cons.prems(1) p o1 show ?thesis by simp
  next
    case (Inr row)
    with Cons.prems(1) p have "main_loop net index_field nc irs (updated @ [row]) s1 = (r, s')"
      by simp
    from Cons.IH [OF this o1] c1 Inr show ?thesis by simp
  qed
qed

lemma main_once: "once (trace (snd (main net input limit)))"
proof -
  have i: "once (trace init_state)" "caches_cover init_state"
    by (simp_all add: once_def caches_cover_def init_state_def)
  have l: "once (trace s')"
    if "main_loop net index_field nc irs [] init_state = (r, s')" for index_field nc irs r s'
    using main_loop_once [OF that i] .
  show ?thesis
    using i(1)
    by (auto simp: main_def Let_def dest: l
        split: option.splits list.splits sum.splits prod.splits)
qed

text \<open>
  C5.  In the trace of a run, whatever the service answers and whether the run succeeds or
  raises, no key has its resolution started twice, no query is searched twice and no
  identifier is fetched twice.
\<close>

theorem each_lookup_at_most_once:
  "distinct (resolved (trace (snd (main net input limit))))
   \<and> distinct (searches (trace (snd (main net input limit))))
   \<and> distinct (fetches (trace (snd (main net input limit))))"
  using main_once [of net input limit] by (simp add: once_def)

text \<open>
  On the table of two rows with the same scientific name, the run resolves the one key once,
  with one search and one fetch.
\<close>

theorem each_lookup_at_most_once_witness:
  "resolved (trace (snd (main tomato_net (Some tomato_rows) None)))
     = [(''sci'', ''Solanum lycopersicum'')]
   \<and> searches (trace (snd (main tomato_net (Some tomato_rows) None)))
     = [''Solanum lycopersicum'']
   \<and> fetches (trace (snd (main tomato_net (Some tomato_rows) None))) = [''4081'']"
  using each_lookup_at_most_once [of tomato_net "Some tomato_rows" None]
  by (simp add: tomato_run)

subsection \<open>Synonym extraction\<close>

lemma strip_Nil: "strip [] = []"
  by (simp add: strip_def lstrip_def rstrip_def)

lemma rstrip_prefix: "\<exists>w. u = rstrip u @ w"
proof -
  have "rstrip u @ rev (takeWhile is_space (rev u)) = u"
    unfolding rstrip_def by (metis rev_append rev_rev_ident takeWhile_dropWhile_id)
  then show ?thesis by metis
qed

lemma lstrip_strip: "lstrip (strip s) = strip s"
proof (cases "strip s")
  case Nil
  then show ?thesis by (simp add: lstrip_def)
next
  case (Cons x xs)
  obtain w where w: "lstrip s = rstrip (lstrip s) @ w"
    using rstrip_prefix by blast
  with Cons have l: "lstrip s = x # xs @ w" by (simp add: strip_def)
  then have "lstrip s \<noteq> []" by simp
  then have "\<not> is_space (hd (lstrip s))"
    unfolding lstrip_def by (rule hd_dropWhile)
  with l have "\<not> is_space x" by simp
  with Cons show ?thesis by (simp add: lstrip_def)
qed

lemma rstrip_idem: "rstrip (rstrip s) = rstrip s"
  by (simp add: rstrip_def)

lemma strip_idem: "strip (strip s) = strip s"
proof -
  have "strip (strip s) = rstrip (lstrip (strip s))" by (simp add: strip_def)
  also have "\<dots> = rstrip (strip s)" by (simp add: lstrip_strip)
  also have "\<dots> = strip s" by (simp add: strip_def rstrip_idem)
  finally show ?thesis .
qed

lemma first_seen_snoc:
  "first_seen (xs @ [x]) = (if x \<in> set xs then first_seen xs else first_seen xs @ [x])"
  by (simp add: first_seen_def)

lemma ordered_keys_snoc:
  "ordered_keys (vs @ [v]) =
     (if strip v \<noteq> [] \<and> strip v \<notin> set (ordered_keys vs) then ordered_keys vs @ [strip v]
      else ordered_keys vs)"
  by (simp add: ordered_keys_def Let_def)

lemma ordered_keys_first_seen:
  "ordered_keys values = first_seen (filter (\<lambda>v. v \<noteq> []) (map strip values))"
proof (induction "values" rule: rev_induct)
  case Nil
  then show ?case by (simp add: ordered_keys_def first_seen_def)
next
  case (snoc v vs)
  have "set (ordered_keys vs) = set (filter (\<lambda>v. v \<noteq> []) (map strip vs))"
    using snoc by (simp add: first_seen_distinct_set)
  with snoc show ?case
    by (simp add: ordered_keys_snoc first_seen_snoc)
qed

lemma append_texts_eq:
  "append_texts values elems
     = values @ filter (\<lambda>v. v \<noteq> []) (map (\<lambda>e. strip (element_text e)) elems)"
proof (induction elems arbitrary: "values")
  case Nil
  then show ?case by (simp add: append_texts_def)
next
  case (Cons e es)
  have "append_texts values (e # es)
      = append_texts (if strip (element_text e) \<noteq> [] then values @ [strip (element_text e)]
                      else values) es"
    by (simp add: append_texts_def element_text_def strip_Nil Let_def split: option.splits)
  with Cons show ?case by simp
qed

lemma append_disp_names_eq:
  "append_disp_names values name_elems
     = values @ map strip (filter (\<lambda>d. d \<noteq> []) (map disp_name name_elems))"
proof (induction name_elems arbitrary: "values")
  case Nil
  then show ?case by (simp add: append_disp_names_def)
next
  case (Cons n ns)
  have "append_disp_names values (n # ns)
      = append_disp_names (if disp_name n \<noteq> [] then values @ [strip (disp_name n)]
                           else values) ns"
    by (simp add: append_disp_names_def disp_name_def split: option.splits)
  with Cons show ?case by simp
qed

lemma clean_filtered_texts:
  "filter (\<lambda>v. v \<noteq> []) (map strip (filter (\<lambda>v. v \<noteq> []) (map (\<lambda>e. strip (f e)) xs)))
     = filter (\<lambda>v. v \<noteq> []) (map strip (map f xs))"
  by (induction xs) (simp_all add: strip_idem)

lemma clean_stripped_names:
  "filter (\<lambda>v. v \<noteq> []) (map strip (map strip (filter (\<lambda>d. d \<noteq> []) ds)))
     = filter (\<lambda>v. v \<noteq> []) (map strip ds)"
  by (induction ds) (simp_all add: strip_idem strip_Nil)

lemma collected_values:
  "filter (\<lambda>v. v \<noteq> [])
     (map strip
        (append_disp_names
           (foldl (\<lambda>values tag. append_texts values (findall other_names tag)) [] synonym_tags)
           (findall other_names ''Name'')))
   = filter (\<lambda>v. v \<noteq> []) (map strip (collected_in_order other_names))"
  by (simp add: synonym_tags_def append_texts_eq append_disp_names_eq collected_in_order_def
      clean_filtered_texts clean_stripped_names del: map_map)

lemma extract_synonyms_spec:
  assumes "find_child root ''Taxon'' = Some taxon"
    and "find_child taxon ''OtherNames'' = Some other_names"
  shows "extract_synonyms (Some root) = Inr (spec_synonyms other_names)"
  using assms
  by (simp add: extract_synonyms_def ordered_keys_first_seen collected_values spec_synonyms_def)

lemma spec_synonyms_clean:
  "distinct (spec_synonyms other_names) \<and> [] \<notin> set (spec_synonyms other_names)
   \<and> (\<forall>v \<in> set (spec_synonyms other_names). strip v = v)"
  by (auto simp: spec_synonyms_def first_seen_distinct_set strip_idem)

text \<open>
  C8.  For a document with a taxon record and its alternate-names section, synonym
  extraction returns the values of the section taken in the order of the field kinds
  (\<open>Synonym\<close>, \<open>EquivalentName\<close>, \<open>GenbankSynonym\<close>, \<open>GenbankCommonName\<close>, \<open>CommonName\<close>, then
  the \<open>DispName\<close> of every \<open>Name\<close>), trimmed, without the empty ones, and with every exact
  repeat after the first removed; the list has no duplicate and no empty string, and each
  of its strings is trimmed.
\<close>

theorem extract_synonyms_ordered_dedup:
  assumes "find_child root ''Taxon'' = Some taxon"
    and "find_child taxon ''OtherNames'' = Some other_names"
  shows "extract_synonyms (Some root) = Inr (spec_synonyms other_names)
     \<and> distinct (spec_synonyms other_names) \<and> [] \<notin> set (spec_synonyms other_names)
     \<and> (\<forall>v \<in> set (spec_synonyms other_names). strip v = v)"
  using extract_synonyms_spec [OF assms] spec_synonyms_clean [of other_names] by simp

theorem extract_synonyms_ordered_dedup_witness:
  "find_child tomato_doc ''Taxon'' = Some tomato_taxon
   \<and> find_child tomato_taxon ''OtherNames'' = Some tomato_names
   \<and> extract_synonyms (Some tomato_doc) = Inr (spec_synonyms tomato_names)
   \<and> spec_synonyms tomato_names
       = [''Lycopersicon esculentum'', ''Solanum esculentum'', ''Tomato'', ''tomato'']"
proof -
  have t: "find_child tomato_doc ''Taxon'' = Some tomato_taxon"
    by (simp add: find_child_def tomato_doc_def tomato_taxon_def)
  have n: "find_child tomato_taxon ''OtherNames'' = Some tomato_names"
    by (simp add: find_child_def tomato_taxon_def tomato_names_def)
  show ?thesis
    using t n extract_synonyms_ordered_dedup [OF t n] extract_tomato by simp
qed

end
